theory Spec2Isabelle
  imports Main "HOL-Library.Multiset"
begin

section \<open>Auto-mode routes of the server: /start, /stop and /status\<close>

text \<open>
  The three handlers of \<^verbatim>\<open>apps/server/src/routes/auto-mode/routes\<close> are embedded as
  pure functions. Each handler receives the service object it was created with, the
  request body and the state of the service, and returns the response it sends, the
  service methods it invoked (in order), the lines it logged and the state the service
  is left in.
\<close>

subsection \<open>JSON values and HTTP responses\<close>

datatype json =
    JNull
  | JBool bool
  | JNumber int
  | JString string
  | JArray "json list"
  | JObject "(string \<times> json) list"

text \<open>
  An object literal is evaluated left to right; a key that is written again (for
  instance by a spread) keeps its first position and takes the later value.
\<close>

fun obj_put :: "string \<Rightarrow> json \<Rightarrow> (string \<times> json) list \<Rightarrow> (string \<times> json) list" where
  "obj_put k v [] = [(k, v)]"
| "obj_put k v ((k', v') # kvs) =
     (if k = k' then (k, v) # kvs else (k', v') # obj_put k v kvs)"

definition obj_literal :: "(string \<times> json) list \<Rightarrow> (string \<times> json) list" where
  "obj_literal kvs = foldl (\<lambda>obj kv. obj_put (fst kv) (snd kv) obj) [] kvs"

text \<open>
  The keys of an object are listed with the array indices first, in ascending numeric
  order, and then the other keys in the order in which they were created;
  \<^verbatim>\<open>JSON.stringify\<close>, which \<^verbatim>\<open>res.json\<close> uses, writes the members in that order. An array
  index is a key that is the decimal numeral, without sign or leading zero, of a whole
  number below \<open>2\<^sup>3\<^sup>2 - 1\<close>.
\<close>

definition digit_value :: "char \<Rightarrow> nat option" where
  "digit_value c = map_of (zip ''0123456789'' [0, 1, 2, 3, 4, 5, 6, 7, 8, 9]) c"

fun decimal :: "nat \<Rightarrow> string \<Rightarrow> nat option" where
  "decimal acc [] = Some acc"
| "decimal acc (c # cs) =
     (case digit_value c of None \<Rightarrow> None | Some d \<Rightarrow> decimal (10 * acc + d) cs)"

definition array_index :: "string \<Rightarrow> nat option" where
  "array_index k =
     (case k of
        [] \<Rightarrow> None
      | c # cs \<Rightarrow>
          if c = CHR ''0'' \<and> cs \<noteq> [] then None
          else (case decimal 0 k of
                  None \<Rightarrow> None
                | Some i \<Rightarrow> if i < 4294967295 then Some i else None))"

definition index_of :: "string \<times> json \<Rightarrow> nat" where
  "index_of kv = (case array_index (fst kv) of None \<Rightarrow> 0 | Some i \<Rightarrow> i)"

definition own_property_order :: "(string \<times> json) list \<Rightarrow> (string \<times> json) list" where
  "own_property_order kvs =
     sort_key index_of (filter (\<lambda>kv. array_index (fst kv) \<noteq> None) kvs)
     @ filter (\<lambda>kv. array_index (fst kv) = None) kvs"

text \<open>
  The value an object has for a key, when the object is given by its entries in the order in
  which they were written: a later entry for a key replaces an earlier one. For entries with
  distinct keys this is the entry of the key.
\<close>

definition own_property :: "(string \<times> json) list \<Rightarrow> string \<Rightarrow> json option" where
  "own_property obj k = map_of (rev obj) k"

record response =
  statusCode :: nat
  jsonBody :: json

text \<open>\<^verbatim>\<open>res.json(b)\<close> answers with status 200, \<^verbatim>\<open>res.status(c).json(b)\<close> with status c.\<close>

definition res_json :: "(string \<times> json) list \<Rightarrow> response" where
  "res_json b = \<lparr>statusCode = 200, jsonBody = JObject b\<rparr>"

definition res_status_json :: "nat \<Rightarrow> (string \<times> json) list \<Rightarrow> response" where
  "res_status_json c b = \<lparr>statusCode = c, jsonBody = JObject b\<rparr>"

definition field :: "string \<Rightarrow> response \<Rightarrow> json option" where
  "field k r = (case jsonBody r of JObject kvs \<Rightarrow> map_of kvs k | _ \<Rightarrow> None)"

subsection \<open>Template literals\<close>

text \<open>
  The numbers that pass through the routes (a concurrency ceiling, a count of features) are
  whole numbers and are modelled as integers. A template literal renders a whole number in
  decimal.
\<close>

definition digit :: "nat \<Rightarrow> char" where
  "digit d = ''0123456789'' ! d"

fun string_of_nat :: "nat \<Rightarrow> string" where
  "string_of_nat n =
     (if n < 10 then [digit n] else string_of_nat (n div 10) @ [digit (n mod 10)])"

declare string_of_nat.simps [simp del]

definition string_of_number :: "int \<Rightarrow> string" where
  "string_of_number i =
     (if i < 0 then CHR ''-'' # string_of_nat (nat (- i)) else string_of_nat (nat i))"

subsection \<open>Request bodies\<close>

text \<open>
  \<^verbatim>\<open>branchName?: string | null\<close> has three shapes: absent (undefined), null, or a string.
  \<^verbatim>\<open>branchName ?? null\<close> maps the first two to null.
\<close>

datatype branch_field = Branch_undefined | Branch_null | Branch_name string

fun nullish_null :: "branch_field \<Rightarrow> string option" where
  "nullish_null Branch_undefined = None"
| "nullish_null Branch_null = None"
| "nullish_null (Branch_name b) = Some b"

text \<open>
  The body the handlers destructure. A field of the body that a handler does not name is
  ignored by it, so one record serves the three routes. \<open>None\<close> is an absent (undefined)
  field.
\<close>

record request_body =
  projectPath :: "string option"
  branchName :: branch_field
  maxConcurrency :: "int option"

definition json_of_branch :: "string option \<Rightarrow> json" where
  "json_of_branch b = (case b of None \<Rightarrow> JNull | Some n \<Rightarrow> JString n)"

text \<open>The description used in messages; the empty branch name is falsy, like null.\<close>

definition worktreeDesc :: "string option \<Rightarrow> string" where
  "worktreeDesc normalizedBranchName =
     (case normalizedBranchName of
        None \<Rightarrow> ''main worktree''
      | Some b \<Rightarrow> if b = [] then ''main worktree'' else ''worktree '' @ b)"

subsection \<open>The service the handlers are created with\<close>

text \<open>
  The class \<^verbatim>\<open>AutoModeService\<close> is imported by the routes as a type only; the handlers
  reach it through the seven methods below, so the service is a parameter of the model:
  a record of its methods over a state \<open>'s\<close> of its own. Every method may throw a value
  of type \<open>'e\<close> (\<open>Inl\<close>). The two methods that start and stop a loop are awaited and
  return the state they leave behind; the five queries are synchronous reads of the state.
  Of the object that \<^verbatim>\<open>getStatusForProject\<close> returns, the record keeps the four fields the
  route reads; the object of \<^verbatim>\<open>getStatus\<close> is spread whole, so it is kept as a list of
  fields.
\<close>

record project_status =
  isAutoLoopRunning :: bool
  runningFeatures :: "string list"
  runningCount :: int
  statusMaxConcurrency :: int

record ('s, 'e) AutoModeService =
  isAutoLoopRunningForProject :: "string \<Rightarrow> string option \<Rightarrow> 's \<Rightarrow> 'e + bool"
  startAutoLoopForProject ::
    "string \<Rightarrow> string option \<Rightarrow> int option \<Rightarrow> 's \<Rightarrow> ('e + int) \<times> 's"
  stopAutoLoopForProject :: "string \<Rightarrow> string option \<Rightarrow> 's \<Rightarrow> ('e + int) \<times> 's"
  getStatusForProject :: "string \<Rightarrow> string option \<Rightarrow> 's \<Rightarrow> 'e + project_status"
  getStatus :: "'s \<Rightarrow> 'e + (string \<times> json) list"
  getActiveAutoLoopProjects :: "'s \<Rightarrow> 'e + string list"
  getActiveAutoLoopWorktrees :: "'s \<Rightarrow> 'e + (string \<times> string option) list"

datatype service_call =
    Call_isAutoLoopRunningForProject string "string option"
  | Call_startAutoLoopForProject string "string option" "int option"
  | Call_stopAutoLoopForProject string "string option"
  | Call_getStatusForProject string "string option"
  | Call_getStatus
  | Call_getActiveAutoLoopProjects
  | Call_getActiveAutoLoopWorktrees

datatype 'e log_line = Log_info string | Log_error 'e string

record ('s, 'e) outcome =
  sent :: response
  invoked :: "service_call list"
  logged :: "'e log_line list"
  serviceState :: 's

subsection \<open>Shared pieces of the handlers\<close>

definition projectPath_required :: response where
  "projectPath_required =
     res_status_json 400
       [(''success'', JBool False), (''error'', JString ''projectPath is required'')]"

text \<open>
  The \<^verbatim>\<open>catch\<close> block of every handler: log the error with the handler's context, answer
  500. \<^verbatim>\<open>getErrorMessage\<close> comes from a module that is not among the sources and is a
  parameter.
\<close>

definition caught ::
  "('e \<Rightarrow> string) \<Rightarrow> string \<Rightarrow> 'e \<Rightarrow> service_call list \<Rightarrow> 's \<Rightarrow> ('s, 'e) outcome" where
  "caught getErrorMessage context e cs s =
     \<lparr>sent = res_status_json 500
         [(''success'', JBool False), (''error'', JString (getErrorMessage e))],
      invoked = cs,
      logged = [Log_error e context],
      serviceState = s\<rparr>"

definition json_of_worktree :: "string \<times> string option \<Rightarrow> json" where
  "json_of_worktree w =
     JObject [(''projectPath'', JString (fst w)), (''branchName'', json_of_branch (snd w))]"

subsection \<open>POST /start\<close>

definition createStartHandler ::
  "('s, 'e) AutoModeService \<Rightarrow> ('e \<Rightarrow> string) \<Rightarrow> request_body \<Rightarrow> 's \<Rightarrow> ('s, 'e) outcome" where
  "createStartHandler autoModeService getErrorMessage body s =
     (case projectPath body of
        None \<Rightarrow> \<lparr>sent = projectPath_required, invoked = [], logged = [], serviceState = s\<rparr>
      | Some p \<Rightarrow>
          if p = [] then
            \<lparr>sent = projectPath_required, invoked = [], logged = [], serviceState = s\<rparr>
          else
            let normalizedBranchName = nullish_null (branchName body);
                c1 = [Call_isAutoLoopRunningForProject p normalizedBranchName]
            in case isAutoLoopRunningForProject autoModeService p normalizedBranchName s of
                 Inl e \<Rightarrow> caught getErrorMessage ''Start auto mode failed'' e c1 s
               | Inr True \<Rightarrow>
                   \<lparr>sent = res_json
                      [(''success'', JBool True),
                       (''message'', JString (''Auto mode is already running for ''
                                               @ worktreeDesc normalizedBranchName)),
                       (''alreadyRunning'', JBool True),
                       (''branchName'', json_of_branch normalizedBranchName)],
                    invoked = c1, logged = [], serviceState = s\<rparr>
               | Inr False \<Rightarrow>
                   let c2 = c1 @ [Call_startAutoLoopForProject p normalizedBranchName
                                    (maxConcurrency body)]
                   in case startAutoLoopForProject autoModeService p normalizedBranchName
                             (maxConcurrency body) s of
                        (Inl e, s') \<Rightarrow> caught getErrorMessage ''Start auto mode failed'' e c2 s'
                      | (Inr resolvedMaxConcurrency, s') \<Rightarrow>
                          \<lparr>sent = res_json
                             [(''success'', JBool True),
                              (''message'', JString (''Auto mode started with max ''
                                 @ string_of_number resolvedMaxConcurrency
                                 @ '' concurrent features'')),
                              (''branchName'', json_of_branch normalizedBranchName)],
                           invoked = c2,
                           logged = [Log_info (''Started auto loop for ''
                              @ worktreeDesc normalizedBranchName @ '' in project: '' @ p
                              @ '' with maxConcurrency: ''
                              @ string_of_number resolvedMaxConcurrency)],
                           serviceState = s'\<rparr>)"

subsection \<open>POST /stop\<close>

definition createStopHandler ::
  "('s, 'e) AutoModeService \<Rightarrow> ('e \<Rightarrow> string) \<Rightarrow> request_body \<Rightarrow> 's \<Rightarrow> ('s, 'e) outcome" where
  "createStopHandler autoModeService getErrorMessage body s =
     (case projectPath body of
        None \<Rightarrow> \<lparr>sent = projectPath_required, invoked = [], logged = [], serviceState = s\<rparr>
      | Some p \<Rightarrow>
          if p = [] then
            \<lparr>sent = projectPath_required, invoked = [], logged = [], serviceState = s\<rparr>
          else
            let normalizedBranchName = nullish_null (branchName body);
                c1 = [Call_isAutoLoopRunningForProject p normalizedBranchName]
            in case isAutoLoopRunningForProject autoModeService p normalizedBranchName s of
                 Inl e \<Rightarrow> caught getErrorMessage ''Stop auto mode failed'' e c1 s
               | Inr False \<Rightarrow>
                   \<lparr>sent = res_json
                      [(''success'', JBool True),
                       (''message'', JString (''Auto mode is not running for ''
                                               @ worktreeDesc normalizedBranchName)),
                       (''wasRunning'', JBool False),
                       (''branchName'', json_of_branch normalizedBranchName)],
                    invoked = c1, logged = [], serviceState = s\<rparr>
               | Inr True \<Rightarrow>
                   let c2 = c1 @ [Call_stopAutoLoopForProject p normalizedBranchName]
                   in case stopAutoLoopForProject autoModeService p normalizedBranchName s of
                        (Inl e, s') \<Rightarrow> caught getErrorMessage ''Stop auto mode failed'' e c2 s'
                      | (Inr runningCount', s') \<Rightarrow>
                          \<lparr>sent = res_json
                             [(''success'', JBool True),
                              (''message'', JString ''Auto mode stopped''),
                              (''runningFeaturesCount'', JNumber runningCount'),
                              (''branchName'', json_of_branch normalizedBranchName)],
                           invoked = c2,
                           logged = [Log_info (''Stopped auto loop for ''
                              @ worktreeDesc normalizedBranchName @ '' in project: '' @ p
                              @ '', '' @ string_of_number runningCount'
                              @ '' features still running'')],
                           serviceState = s'\<rparr>)"

subsection \<open>POST /status\<close>

definition perProjectStatus ::
  "('s, 'e) AutoModeService \<Rightarrow> ('e \<Rightarrow> string) \<Rightarrow> string \<Rightarrow> branch_field \<Rightarrow> 's
     \<Rightarrow> ('s, 'e) outcome" where
  "perProjectStatus autoModeService getErrorMessage p b s =
     (let normalizedBranchName = nullish_null b;
          c1 = [Call_getStatusForProject p normalizedBranchName]
      in case getStatusForProject autoModeService p normalizedBranchName s of
           Inl e \<Rightarrow> caught getErrorMessage ''Get status failed'' e c1 s
         | Inr projectStatus \<Rightarrow>
             \<lparr>sent = res_json
                [(''success'', JBool True),
                 (''isRunning'', JBool (runningCount projectStatus > 0)),
                 (''isAutoLoopRunning'', JBool (isAutoLoopRunning projectStatus)),
                 (''runningFeatures'', JArray (map JString (runningFeatures projectStatus))),
                 (''runningCount'', JNumber (runningCount projectStatus)),
                 (''maxConcurrency'', JNumber (statusMaxConcurrency projectStatus)),
                 (''projectPath'', JString p),
                 (''branchName'', json_of_branch normalizedBranchName)],
              invoked = c1, logged = [], serviceState = s\<rparr>)"

definition globalStatus ::
  "('s, 'e) AutoModeService \<Rightarrow> ('e \<Rightarrow> string) \<Rightarrow> 's \<Rightarrow> ('s, 'e) outcome" where
  "globalStatus autoModeService getErrorMessage s =
     (case getStatus autoModeService s of
        Inl e \<Rightarrow> caught getErrorMessage ''Get status failed'' e [Call_getStatus] s
      | Inr status \<Rightarrow>
          (case getActiveAutoLoopProjects autoModeService s of
             Inl e \<Rightarrow>
               caught getErrorMessage ''Get status failed'' e
                 [Call_getStatus, Call_getActiveAutoLoopProjects] s
           | Inr activeProjects \<Rightarrow>
               (case getActiveAutoLoopWorktrees autoModeService s of
                  Inl e \<Rightarrow>
                    caught getErrorMessage ''Get status failed'' e
                      [Call_getStatus, Call_getActiveAutoLoopProjects,
                       Call_getActiveAutoLoopWorktrees] s
                | Inr activeWorktrees \<Rightarrow>
                    \<lparr>sent = res_json (own_property_order (obj_literal
                       ([(''success'', JBool True)] @ status @
                        [(''activeAutoLoopProjects'', JArray (map JString activeProjects)),
                         (''activeAutoLoopWorktrees'',
                            JArray (map json_of_worktree activeWorktrees))]))),
                     invoked = [Call_getStatus, Call_getActiveAutoLoopProjects,
                                Call_getActiveAutoLoopWorktrees],
                     logged = [], serviceState = s\<rparr>)))"

definition createStatusHandler ::
  "('s, 'e) AutoModeService \<Rightarrow> ('e \<Rightarrow> string) \<Rightarrow> request_body \<Rightarrow> 's \<Rightarrow> ('s, 'e) outcome" where
  "createStatusHandler autoModeService getErrorMessage body s =
     (case projectPath body of
        None \<Rightarrow> globalStatus autoModeService getErrorMessage s
      | Some p \<Rightarrow>
          if p = [] then globalStatus autoModeService getErrorMessage s
          else perProjectStatus autoModeService getErrorMessage p (branchName body) s)"

subsection \<open>A service double for concrete requests\<close>

text \<open>
  A small service over one loop, used to instantiate the theorems below at concrete
  requests: it throws for the project paths \<^verbatim>\<open>/broken\<close> and \<^verbatim>\<open>/locked\<close>.
\<close>


record stub_state =
  stubRunning :: bool
  stubCeiling :: int
  stubInFlight :: "string list"

definition stub_service :: "(stub_state, string) AutoModeService" where
  "stub_service =
     \<lparr>isAutoLoopRunningForProject =
        (\<lambda>p b s. if p = ''/broken'' then Inl ''registry unavailable'' else Inr (stubRunning s)),
      startAutoLoopForProject =
        (\<lambda>p b mc s.
           if p = ''/locked'' then (Inl ''cannot start'', s)
           else let c = (case mc of Some m \<Rightarrow> m | None \<Rightarrow> stubCeiling s)
                in (Inr c, s\<lparr>stubRunning := True, stubCeiling := c\<rparr>)),
      stopAutoLoopForProject =
        (\<lambda>p b s.
           if p = ''/locked'' then (Inl ''cannot stop'', s)
           else (Inr (int (length (stubInFlight s))), s\<lparr>stubRunning := False\<rparr>)),
      getStatusForProject =
        (\<lambda>p b s.
           if p = ''/broken'' then Inl ''registry unavailable''
           else Inr \<lparr>isAutoLoopRunning = stubRunning s,
                     runningFeatures = stubInFlight s,
                     runningCount = int (length (stubInFlight s)),
                     statusMaxConcurrency = stubCeiling s\<rparr>),
      getStatus =
        (\<lambda>s. Inr [(''isRunning'', JBool (stubInFlight s \<noteq> [])),
                  (''runningFeatures'', JArray (map JString (stubInFlight s))),
                  (''runningCount'', JNumber (int (length (stubInFlight s))))]),
      getActiveAutoLoopProjects = (\<lambda>s. Inr (if stubRunning s then [''/repo''] else [])),
      getActiveAutoLoopWorktrees =
        (\<lambda>s. Inr (if stubRunning s then [(''/repo'', None)] else []))\<rparr>"


definition stub_message :: "string \<Rightarrow> string" where
  "stub_message e = e"

definition idle :: stub_state where
  "idle = \<lparr>stubRunning = False, stubCeiling = 3, stubInFlight = []\<rparr>"

definition busy :: stub_state where
  "busy = \<lparr>stubRunning = True, stubCeiling = 3, stubInFlight = [''f1'', ''f2'']\<rparr>"

definition draining :: stub_state where
  "draining = \<lparr>stubRunning = False, stubCeiling = 3, stubInFlight = [''f1'', ''f2'']\<rparr>"

definition waiting :: stub_state where
  "waiting = \<lparr>stubRunning = True, stubCeiling = 3, stubInFlight = []\<rparr>"

definition req :: "string option \<Rightarrow> branch_field \<Rightarrow> int option \<Rightarrow> request_body" where
  "req p b mc = \<lparr>projectPath = p, branchName = b, maxConcurrency = mc\<rparr>"

subsection \<open>What an invoked method throws\<close>



section \<open>The branches of the handlers\<close>

lemmas stub_simps = stub_service_def idle_def busy_def draining_def waiting_def req_def
  stub_message_def



lemma start_missing:
  "projectPath body = None \<or> projectPath body = Some [] \<Longrightarrow>
   createStartHandler svc gem body s =
     \<lparr>sent = projectPath_required, invoked = [], logged = [], serviceState = s\<rparr>"
  by (auto simp: createStartHandler_def)

lemma stop_missing:
  "projectPath body = None \<or> projectPath body = Some [] \<Longrightarrow>
   createStopHandler svc gem body s =
     \<lparr>sent = projectPath_required, invoked = [], logged = [], serviceState = s\<rparr>"
  by (auto simp: createStopHandler_def)

lemma start_query_threw:
  assumes "projectPath body = Some p" and "p \<noteq> []"
    and "isAutoLoopRunningForProject svc p (nullish_null (branchName body)) s = Inl e"
  shows "createStartHandler svc gem body s =
     caught gem ''Start auto mode failed'' e
       [Call_isAutoLoopRunningForProject p (nullish_null (branchName body))] s"
  using assms by (simp add: createStartHandler_def Let_def)

lemma start_running_branch:
  assumes "projectPath body = Some p" and "p \<noteq> []"
    and "isAutoLoopRunningForProject svc p (nullish_null (branchName body)) s = Inr True"
  shows "createStartHandler svc gem body s =
     \<lparr>sent = res_json
        [(''success'', JBool True),
         (''message'', JString (''Auto mode is already running for ''
                                 @ worktreeDesc (nullish_null (branchName body)))),
         (''alreadyRunning'', JBool True),
         (''branchName'', json_of_branch (nullish_null (branchName body)))],
      invoked = [Call_isAutoLoopRunningForProject p (nullish_null (branchName body))],
      logged = [], serviceState = s\<rparr>"
  using assms by (simp add: createStartHandler_def Let_def)

lemma start_threw:
  assumes "projectPath body = Some p" and "p \<noteq> []"
    and "isAutoLoopRunningForProject svc p (nullish_null (branchName body)) s = Inr False"
    and "startAutoLoopForProject svc p (nullish_null (branchName body)) (maxConcurrency body) s
           = (Inl e, s')"
  shows "createStartHandler svc gem body s =
     caught gem ''Start auto mode failed'' e
       [Call_isAutoLoopRunningForProject p (nullish_null (branchName body)),
        Call_startAutoLoopForProject p (nullish_null (branchName body)) (maxConcurrency body)] s'"
  using assms by (simp add: createStartHandler_def Let_def)

lemma start_started:
  assumes "projectPath body = Some p" and "p \<noteq> []"
    and "isAutoLoopRunningForProject svc p (nullish_null (branchName body)) s = Inr False"
    and "startAutoLoopForProject svc p (nullish_null (branchName body)) (maxConcurrency body) s
           = (Inr n, s')"
  shows "createStartHandler svc gem body s =
     \<lparr>sent = res_json
        [(''success'', JBool True),
         (''message'', JString (''Auto mode started with max '' @ string_of_number n
                                 @ '' concurrent features'')),
         (''branchName'', json_of_branch (nullish_null (branchName body)))],
      invoked =
        [Call_isAutoLoopRunningForProject p (nullish_null (branchName body)),
         Call_startAutoLoopForProject p (nullish_null (branchName body)) (maxConcurrency body)],
      logged = [Log_info (''Started auto loop for ''
                  @ worktreeDesc (nullish_null (branchName body)) @ '' in project: '' @ p
                  @ '' with maxConcurrency: '' @ string_of_number n)],
      serviceState = s'\<rparr>"
  using assms by (simp add: createStartHandler_def Let_def)

lemma stop_query_threw:
  assumes "projectPath body = Some p" and "p \<noteq> []"
    and "isAutoLoopRunningForProject svc p (nullish_null (branchName body)) s = Inl e"
  shows "createStopHandler svc gem body s =
     caught gem ''Stop auto mode failed'' e
       [Call_isAutoLoopRunningForProject p (nullish_null (branchName body))] s"
  using assms by (simp add: createStopHandler_def Let_def)

lemma stop_idle_branch:
  assumes "projectPath body = Some p" and "p \<noteq> []"
    and "isAutoLoopRunningForProject svc p (nullish_null (branchName body)) s = Inr False"
  shows "createStopHandler svc gem body s =
     \<lparr>sent = res_json
        [(''success'', JBool True),
         (''message'', JString (''Auto mode is not running for ''
                                 @ worktreeDesc (nullish_null (branchName body)))),
         (''wasRunning'', JBool False),
         (''branchName'', json_of_branch (nullish_null (branchName body)))],
      invoked = [Call_isAutoLoopRunningForProject p (nullish_null (branchName body))],
      logged = [], serviceState = s\<rparr>"
  using assms by (simp add: createStopHandler_def Let_def)

lemma stop_threw:
  assumes "projectPath body = Some p" and "p \<noteq> []"
    and "isAutoLoopRunningForProject svc p (nullish_null (branchName body)) s = Inr True"
    and "stopAutoLoopForProject svc p (nullish_null (branchName body)) s = (Inl e, s')"
  shows "createStopHandler svc gem body s =
     caught gem ''Stop auto mode failed'' e
       [Call_isAutoLoopRunningForProject p (nullish_null (branchName body)),
        Call_stopAutoLoopForProject p (nullish_null (branchName body))] s'"
  using assms by (simp add: createStopHandler_def Let_def)

lemma stop_stopped:
  assumes "projectPath body = Some p" and "p \<noteq> []"
    and "isAutoLoopRunningForProject svc p (nullish_null (branchName body)) s = Inr True"
    and "stopAutoLoopForProject svc p (nullish_null (branchName body)) s = (Inr n, s')"
  shows "createStopHandler svc gem body s =
     \<lparr>sent = res_json
        [(''success'', JBool True),
         (''message'', JString ''Auto mode stopped''),
         (''runningFeaturesCount'', JNumber n),
         (''branchName'', json_of_branch (nullish_null (branchName body)))],
      invoked =
        [Call_isAutoLoopRunningForProject p (nullish_null (branchName body)),
         Call_stopAutoLoopForProject p (nullish_null (branchName body))],
      logged = [Log_info (''Stopped auto loop for ''
                  @ worktreeDesc (nullish_null (branchName body)) @ '' in project: '' @ p
                  @ '', '' @ string_of_number n @ '' features still running'')],
      serviceState = s'\<rparr>"
  using assms by (simp add: createStopHandler_def Let_def)

lemma status_global:
  "projectPath body = None \<or> projectPath body = Some [] \<Longrightarrow>
   createStatusHandler svc gem body s = globalStatus svc gem s"
  by (auto simp: createStatusHandler_def)

lemma status_per_project:
  "projectPath body = Some p \<Longrightarrow> p \<noteq> [] \<Longrightarrow>
   createStatusHandler svc gem body s = perProjectStatus svc gem p (branchName body) s"
  by (simp add: createStatusHandler_def)











lemma own_property_distinct: "distinct (map fst obj) \<Longrightarrow> own_property obj k = map_of obj k"
  unfolding own_property_def
  by (metis distinct_rev map_of_inject_set rev_map set_rev)




lemma own_property_order_example:
  "own_property_order (obj_literal
      [(''success'', JBool True), (''7'', JNull), (''b'', JNull), (''2'', JNull),
       (''success'', JBool False)])
   = [(''2'', JNull), (''7'', JNull), (''success'', JBool False), (''b'', JNull)]"
  by (simp add: own_property_order_def obj_literal_def array_index_def digit_value_def
      index_of_def)


lemma status_project_branch:
  assumes "projectPath body = Some p" and "p \<noteq> []"
    and "getStatusForProject svc p (nullish_null (branchName body)) s = Inr projectStatus"
  shows "createStatusHandler svc gem body s =
     \<lparr>sent = res_json
        [(''success'', JBool True),
         (''isRunning'', JBool (runningCount projectStatus > 0)),
         (''isAutoLoopRunning'', JBool (isAutoLoopRunning projectStatus)),
         (''runningFeatures'', JArray (map JString (runningFeatures projectStatus))),
         (''runningCount'', JNumber (runningCount projectStatus)),
         (''maxConcurrency'', JNumber (statusMaxConcurrency projectStatus)),
         (''projectPath'', JString p),
         (''branchName'', json_of_branch (nullish_null (branchName body)))],
      invoked = [Call_getStatusForProject p (nullish_null (branchName body))],
      logged = [], serviceState = s\<rparr>"
  using assms by (simp add: createStatusHandler_def perProjectStatus_def Let_def)









lemma start_branch_only_normalised:
  "nullish_null (branchName b1) = nullish_null (branchName b2) \<Longrightarrow>
   projectPath b1 = projectPath b2 \<Longrightarrow> maxConcurrency b1 = maxConcurrency b2 \<Longrightarrow>
   createStartHandler svc gem b1 s = createStartHandler svc gem b2 s"
  by (simp add: createStartHandler_def Let_def
      cong: option.case_cong sum.case_cong bool.case_cong prod.case_cong if_cong)

lemma stop_branch_only_normalised:
  "nullish_null (branchName b1) = nullish_null (branchName b2) \<Longrightarrow>
   projectPath b1 = projectPath b2 \<Longrightarrow>
   createStopHandler svc gem b1 s = createStopHandler svc gem b2 s"
  by (simp add: createStopHandler_def Let_def
      cong: option.case_cong sum.case_cong bool.case_cong prod.case_cong if_cong)

lemma status_branch_only_normalised:
  "nullish_null (branchName b1) = nullish_null (branchName b2) \<Longrightarrow>
   projectPath b1 = projectPath b2 \<Longrightarrow>
   createStatusHandler svc gem b1 s = createStatusHandler svc gem b2 s"
  by (simp add: createStatusHandler_def perProjectStatus_def Let_def
      cong: option.case_cong sum.case_cong if_cong)

lemma start_echo:
  assumes "projectPath body = Some p" and "p \<noteq> []"
    and "statusCode (sent (createStartHandler svc gem body s)) = 200"
  shows "field ''branchName'' (sent (createStartHandler svc gem body s))
           = Some (json_of_branch (nullish_null (branchName body)))"
  using assms
  by (auto simp: createStartHandler_def Let_def caught_def res_json_def res_status_json_def
      field_def split: sum.splits bool.splits prod.splits)

lemma stop_echo:
  assumes "projectPath body = Some p" and "p \<noteq> []"
    and "statusCode (sent (createStopHandler svc gem body s)) = 200"
  shows "field ''branchName'' (sent (createStopHandler svc gem body s))
           = Some (json_of_branch (nullish_null (branchName body)))"
  using assms
  by (auto simp: createStopHandler_def Let_def caught_def res_json_def res_status_json_def
      field_def split: sum.splits bool.splits prod.splits)

lemma status_echo:
  assumes "projectPath body = Some p" and "p \<noteq> []"
    and "statusCode (sent (createStatusHandler svc gem body s)) = 200"
  shows "field ''branchName'' (sent (createStatusHandler svc gem body s))
           = Some (json_of_branch (nullish_null (branchName body)))"
  using assms
  by (auto simp: createStatusHandler_def perProjectStatus_def Let_def caught_def res_json_def
      res_status_json_def field_def split: sum.splits)

section \<open>Properties of the routes\<close>


text \<open>
  C2. A /start request whose key (projectPath, normalised branchName) already has a running
  loop is answered 200 with success true and alreadyRunning true; the only service method
  invoked is the running query, so startAutoLoopForProject is not invoked, and the state of
  the service, hence the key's status with its maxConcurrency, is unchanged.
\<close>

theorem start_already_running:
  assumes "projectPath body = Some p" and "p \<noteq> []"
    and "isAutoLoopRunningForProject svc p (nullish_null (branchName body)) s = Inr True"
  shows "statusCode (sent (createStartHandler svc gem body s)) = 200
       \<and> field ''success'' (sent (createStartHandler svc gem body s)) = Some (JBool True)
       \<and> field ''alreadyRunning'' (sent (createStartHandler svc gem body s)) = Some (JBool True)
       \<and> field ''branchName'' (sent (createStartHandler svc gem body s))
           = Some (json_of_branch (nullish_null (branchName body)))
       \<and> invoked (createStartHandler svc gem body s)
           = [Call_isAutoLoopRunningForProject p (nullish_null (branchName body))]
       \<and> serviceState (createStartHandler svc gem body s) = s
       \<and> getStatusForProject svc p (nullish_null (branchName body))
            (serviceState (createStartHandler svc gem body s))
           = getStatusForProject svc p (nullish_null (branchName body)) s"
  by (simp add: start_running_branch [OF assms] res_json_def field_def)

text \<open>The theorem at a request for a running loop of the service double.\<close>

theorem start_already_running_witness:
  "statusCode (sent (createStartHandler stub_service stub_message
       (req (Some ''/repo'') (Branch_name ''feature/a'') (Some 7)) busy)) = 200
   \<and> field ''alreadyRunning'' (sent (createStartHandler stub_service stub_message
       (req (Some ''/repo'') (Branch_name ''feature/a'') (Some 7)) busy)) = Some (JBool True)
   \<and> invoked (createStartHandler stub_service stub_message
       (req (Some ''/repo'') (Branch_name ''feature/a'') (Some 7)) busy)
       = [Call_isAutoLoopRunningForProject ''/repo'' (Some ''feature/a'')]
   \<and> getStatusForProject stub_service ''/repo'' (Some ''feature/a'')
        (serviceState (createStartHandler stub_service stub_message
           (req (Some ''/repo'') (Branch_name ''feature/a'') (Some 7)) busy))
       = Inr \<lparr>isAutoLoopRunning = True, runningFeatures = [''f1'', ''f2''],
              runningCount = 2, statusMaxConcurrency = 3\<rparr>"
  using start_already_running [of "req (Some ''/repo'') (Branch_name ''feature/a'') (Some 7)"
      "''/repo''" stub_service busy stub_message]
  by (simp add: stub_simps)

text \<open>
  C3. A /stop request whose key has no running loop is answered 200 with success true and
  wasRunning false; the only service method invoked is the running query, so
  stopAutoLoopForProject is not invoked, and the state of the service is unchanged.
\<close>

theorem stop_not_running:
  assumes "projectPath body = Some p" and "p \<noteq> []"
    and "isAutoLoopRunningForProject svc p (nullish_null (branchName body)) s = Inr False"
  shows "statusCode (sent (createStopHandler svc gem body s)) = 200
       \<and> field ''success'' (sent (createStopHandler svc gem body s)) = Some (JBool True)
       \<and> field ''wasRunning'' (sent (createStopHandler svc gem body s)) = Some (JBool False)
       \<and> field ''branchName'' (sent (createStopHandler svc gem body s))
           = Some (json_of_branch (nullish_null (branchName body)))
       \<and> invoked (createStopHandler svc gem body s)
           = [Call_isAutoLoopRunningForProject p (nullish_null (branchName body))]
       \<and> serviceState (createStopHandler svc gem body s) = s"
  by (simp add: stop_idle_branch [OF assms] res_json_def field_def)

text \<open>The theorem at a request for a stopped loop that is still draining.\<close>

theorem stop_not_running_witness:
  "statusCode (sent (createStopHandler stub_service stub_message
       (req (Some ''/repo'') Branch_null None) draining)) = 200
   \<and> field ''wasRunning'' (sent (createStopHandler stub_service stub_message
       (req (Some ''/repo'') Branch_null None) draining)) = Some (JBool False)
   \<and> field ''branchName'' (sent (createStopHandler stub_service stub_message
       (req (Some ''/repo'') Branch_null None) draining)) = Some JNull
   \<and> invoked (createStopHandler stub_service stub_message
       (req (Some ''/repo'') Branch_null None) draining)
       = [Call_isAutoLoopRunningForProject ''/repo'' None]
   \<and> serviceState (createStopHandler stub_service stub_message
       (req (Some ''/repo'') Branch_null None) draining) = draining"
  using stop_not_running [of "req (Some ''/repo'') Branch_null None" "''/repo''"
      stub_service draining stub_message]
  by (simp add: stub_simps json_of_branch_def)

text \<open>
  C4. A /start or /stop request whose projectPath is absent (undefined) or the empty string
  is answered 400 with success false and the error \<^verbatim>\<open>projectPath is required\<close>, and no
  method of the service is invoked.
\<close>

theorem projectPath_missing_rejected:
  assumes "projectPath body = None \<or> projectPath body = Some []"
  shows "sent (createStartHandler svc gem body s) = projectPath_required
       \<and> invoked (createStartHandler svc gem body s) = []
       \<and> serviceState (createStartHandler svc gem body s) = s
       \<and> sent (createStopHandler svc gem' body s) = projectPath_required
       \<and> invoked (createStopHandler svc gem' body s) = []
       \<and> serviceState (createStopHandler svc gem' body s) = s
       \<and> statusCode projectPath_required = 400
       \<and> field ''success'' projectPath_required = Some (JBool False)
       \<and> field ''error'' projectPath_required = Some (JString ''projectPath is required'')"
  by (simp add: start_missing [OF assms] stop_missing [OF assms] projectPath_required_def
      res_status_json_def field_def)

text \<open>The theorem at a request with the empty projectPath.\<close>

theorem projectPath_missing_rejected_witness:
  "statusCode (sent (createStartHandler stub_service stub_message
       (req (Some []) (Branch_name ''feature/a'') (Some 2)) idle)) = 400
   \<and> invoked (createStartHandler stub_service stub_message
       (req (Some []) (Branch_name ''feature/a'') (Some 2)) idle) = []
   \<and> field ''error'' (sent (createStopHandler stub_service stub_message
       (req (Some []) (Branch_name ''feature/a'') (Some 2)) idle))
       = Some (JString ''projectPath is required'')
   \<and> invoked (createStopHandler stub_service stub_message
       (req (Some []) (Branch_name ''feature/a'') (Some 2)) idle) = []"
  using projectPath_missing_rejected [of "req (Some []) (Branch_name ''feature/a'') (Some 2)"
      stub_service stub_message idle stub_message]
  by (simp add: req_def)

text \<open>
  C5. For each of the three handlers, a request whose branchName is absent (undefined) has
  the same outcome (response, service calls, log, state) as the same request with
  branchName null, and every 200 answer to a request with a projectPath echoes branchName
  as null.
\<close>

theorem branchName_undefined_is_null:
  "createStartHandler svc gem (body\<lparr>branchName := Branch_undefined\<rparr>) s
     = createStartHandler svc gem (body\<lparr>branchName := Branch_null\<rparr>) s
   \<and> createStopHandler svc gem (body\<lparr>branchName := Branch_undefined\<rparr>) s
     = createStopHandler svc gem (body\<lparr>branchName := Branch_null\<rparr>) s
   \<and> createStatusHandler svc gem (body\<lparr>branchName := Branch_undefined\<rparr>) s
     = createStatusHandler svc gem (body\<lparr>branchName := Branch_null\<rparr>) s
   \<and> (projectPath body = Some p \<and> p \<noteq> [] \<longrightarrow>
        (statusCode (sent (createStartHandler svc gem (body\<lparr>branchName := Branch_undefined\<rparr>) s))
           = 200 \<longrightarrow>
         field ''branchName''
           (sent (createStartHandler svc gem (body\<lparr>branchName := Branch_undefined\<rparr>) s))
           = Some JNull)
      \<and> (statusCode (sent (createStopHandler svc gem (body\<lparr>branchName := Branch_undefined\<rparr>) s))
           = 200 \<longrightarrow>
         field ''branchName''
           (sent (createStopHandler svc gem (body\<lparr>branchName := Branch_undefined\<rparr>) s))
           = Some JNull)
      \<and> (statusCode (sent (createStatusHandler svc gem (body\<lparr>branchName := Branch_undefined\<rparr>) s))
           = 200 \<longrightarrow>
         field ''branchName''
           (sent (createStatusHandler svc gem (body\<lparr>branchName := Branch_undefined\<rparr>) s))
           = Some JNull))"
proof -
  let ?u = "body\<lparr>branchName := Branch_undefined\<rparr>" and ?n = "body\<lparr>branchName := Branch_null\<rparr>"
  have 1: "createStartHandler svc gem ?u s = createStartHandler svc gem ?n s"
    by (rule start_branch_only_normalised) simp_all
  have 2: "createStopHandler svc gem ?u s = createStopHandler svc gem ?n s"
    by (rule stop_branch_only_normalised) simp_all
  have 3: "createStatusHandler svc gem ?u s = createStatusHandler svc gem ?n s"
    by (rule status_branch_only_normalised) simp_all
  have 4: "field ''branchName'' (sent (createStartHandler svc gem ?u s)) = Some JNull"
    if "projectPath body = Some p" "p \<noteq> []"
      "statusCode (sent (createStartHandler svc gem ?u s)) = 200"
    using start_echo [of ?u p svc gem s] that by (simp add: json_of_branch_def)
  have 5: "field ''branchName'' (sent (createStopHandler svc gem ?u s)) = Some JNull"
    if "projectPath body = Some p" "p \<noteq> []"
      "statusCode (sent (createStopHandler svc gem ?u s)) = 200"
    using stop_echo [of ?u p svc gem s] that by (simp add: json_of_branch_def)
  have 6: "field ''branchName'' (sent (createStatusHandler svc gem ?u s)) = Some JNull"
    if "projectPath body = Some p" "p \<noteq> []"
      "statusCode (sent (createStatusHandler svc gem ?u s)) = 200"
    using status_echo [of ?u p svc gem s] that by (simp add: json_of_branch_def)
  from 1 2 3 4 5 6 show ?thesis by blast
qed

text \<open>The theorem at requests that are answered 200 by the service double.\<close>

theorem branchName_undefined_is_null_witness:
  "statusCode (sent (createStartHandler stub_service stub_message
      ((req (Some ''/repo'') (Branch_name ''x'') (Some 2))\<lparr>branchName := Branch_undefined\<rparr>) idle))
     = 200
   \<and> field ''branchName'' (sent (createStartHandler stub_service stub_message
      ((req (Some ''/repo'') (Branch_name ''x'') (Some 2))\<lparr>branchName := Branch_undefined\<rparr>) idle))
     = Some JNull
   \<and> field ''branchName'' (sent (createStartHandler stub_service stub_message
      ((req (Some ''/repo'') (Branch_name ''x'') (Some 2))\<lparr>branchName := Branch_null\<rparr>) idle))
     = Some JNull
   \<and> field ''branchName'' (sent (createStopHandler stub_service stub_message
      ((req (Some ''/repo'') (Branch_name ''x'') (Some 2))\<lparr>branchName := Branch_undefined\<rparr>) busy))
     = Some JNull
   \<and> field ''branchName'' (sent (createStatusHandler stub_service stub_message
      ((req (Some ''/repo'') (Branch_name ''x'') (Some 2))\<lparr>branchName := Branch_undefined\<rparr>) busy))
     = Some JNull"
proof -
  let ?b = "req (Some ''/repo'') (Branch_name ''x'') (Some 2)"
  have p: "projectPath ?b = Some ''/repo''" "''/repo'' \<noteq> []"
    by (simp_all add: req_def)
  have s1: "statusCode (sent (createStartHandler stub_service stub_message
      (?b\<lparr>branchName := Branch_undefined\<rparr>) idle)) = 200"
    by (simp add: createStartHandler_def res_json_def stub_simps)
  have s2: "statusCode (sent (createStopHandler stub_service stub_message
      (?b\<lparr>branchName := Branch_undefined\<rparr>) busy)) = 200"
    by (simp add: createStopHandler_def res_json_def stub_simps)
  have s3: "statusCode (sent (createStatusHandler stub_service stub_message
      (?b\<lparr>branchName := Branch_undefined\<rparr>) busy)) = 200"
    by (simp add: createStatusHandler_def perProjectStatus_def res_json_def stub_simps)
  from branchName_undefined_is_null [of stub_service stub_message ?b idle "''/repo''"]
    branchName_undefined_is_null [of stub_service stub_message ?b busy "''/repo''"]
    p s1 s2 s3
  show ?thesis by metis
qed



text \<open>
  C7. A /stop request whose key has a running loop is answered 200 with success true, the
  normalised branchName, and runningFeaturesCount equal to the number that
  stopAutoLoopForProject returned for that key.
\<close>

theorem stop_reports_running_count:
  assumes "projectPath body = Some p" and "p \<noteq> []"
    and "isAutoLoopRunningForProject svc p (nullish_null (branchName body)) s = Inr True"
    and "stopAutoLoopForProject svc p (nullish_null (branchName body)) s = (Inr n, s')"
  shows "statusCode (sent (createStopHandler svc gem body s)) = 200
       \<and> field ''success'' (sent (createStopHandler svc gem body s)) = Some (JBool True)
       \<and> field ''runningFeaturesCount'' (sent (createStopHandler svc gem body s))
           = Some (JNumber n)
       \<and> field ''branchName'' (sent (createStopHandler svc gem body s))
           = Some (json_of_branch (nullish_null (branchName body)))
       \<and> invoked (createStopHandler svc gem body s)
           = [Call_isAutoLoopRunningForProject p (nullish_null (branchName body)),
              Call_stopAutoLoopForProject p (nullish_null (branchName body))]
       \<and> serviceState (createStopHandler svc gem body s) = s'"
  by (simp add: stop_stopped [OF assms] res_json_def field_def)

text \<open>The theorem at a request that stops a loop with two features in flight.\<close>

theorem stop_reports_running_count_witness:
  "statusCode (sent (createStopHandler stub_service stub_message
       (req (Some ''/repo'') (Branch_name ''feature/a'') None) busy)) = 200
   \<and> field ''runningFeaturesCount'' (sent (createStopHandler stub_service stub_message
       (req (Some ''/repo'') (Branch_name ''feature/a'') None) busy)) = Some (JNumber 2)
   \<and> field ''branchName'' (sent (createStopHandler stub_service stub_message
       (req (Some ''/repo'') (Branch_name ''feature/a'') None) busy))
       = Some (JString ''feature/a'')
   \<and> serviceState (createStopHandler stub_service stub_message
       (req (Some ''/repo'') (Branch_name ''feature/a'') None) busy) = draining"
  using stop_reports_running_count [of "req (Some ''/repo'') (Branch_name ''feature/a'') None"
      "''/repo''" stub_service busy 2 draining stub_message]
  by (simp add: stub_simps json_of_branch_def)




text \<open>
  C9. In a per-project /status response isRunning is (runningCount > 0), whatever
  isAutoLoopRunning is: it is true with isAutoLoopRunning false for a stopped loop that is
  draining, and false with isAutoLoopRunning true for a running loop with nothing
  dispatched.
\<close>

theorem isRunning_independent_of_loop:
  "(projectPath body = Some p \<and> p \<noteq> [] \<and>
    getStatusForProject svc p (nullish_null (branchName body)) s = Inr projectStatus \<longrightarrow>
      field ''isRunning'' (sent (createStatusHandler svc gem body s))
        = Some (JBool (runningCount projectStatus > 0))
      \<and> field ''isAutoLoopRunning'' (sent (createStatusHandler svc gem body s))
        = Some (JBool (isAutoLoopRunning projectStatus)))
   \<and> field ''isRunning'' (sent (createStatusHandler stub_service stub_message
        (req (Some ''/repo'') Branch_null None) draining)) = Some (JBool True)
   \<and> field ''isAutoLoopRunning'' (sent (createStatusHandler stub_service stub_message
        (req (Some ''/repo'') Branch_null None) draining)) = Some (JBool False)
   \<and> field ''isRunning'' (sent (createStatusHandler stub_service stub_message
        (req (Some ''/repo'') Branch_null None) waiting)) = Some (JBool False)
   \<and> field ''isAutoLoopRunning'' (sent (createStatusHandler stub_service stub_message
        (req (Some ''/repo'') Branch_null None) waiting)) = Some (JBool True)"
proof -
  have gen: "field ''isRunning'' (sent (createStatusHandler svc gem body s))
        = Some (JBool (runningCount projectStatus > 0))
      \<and> field ''isAutoLoopRunning'' (sent (createStatusHandler svc gem body s))
        = Some (JBool (isAutoLoopRunning projectStatus))"
    if "projectPath body = Some p" "p \<noteq> []"
      "getStatusForProject svc p (nullish_null (branchName body)) s = Inr projectStatus"
    for svc :: "('s, 'e) AutoModeService" and gem body s p projectStatus
    by (simp add: status_project_branch [OF that] res_json_def field_def)
  have d: "projectPath (req (Some ''/repo'') Branch_null None) = Some ''/repo''" "''/repo'' \<noteq> []"
    "getStatusForProject stub_service ''/repo''
       (nullish_null (branchName (req (Some ''/repo'') Branch_null None))) draining
     = Inr \<lparr>isAutoLoopRunning = False, runningFeatures = [''f1'', ''f2''],
              runningCount = 2, statusMaxConcurrency = 3\<rparr>"
    by (simp_all add: stub_simps)
  have w: "projectPath (req (Some ''/repo'') Branch_null None) = Some ''/repo''" "''/repo'' \<noteq> []"
    "getStatusForProject stub_service ''/repo''
       (nullish_null (branchName (req (Some ''/repo'') Branch_null None))) waiting
     = Inr \<lparr>isAutoLoopRunning = True, runningFeatures = [],
              runningCount = 0, statusMaxConcurrency = 3\<rparr>"
    by (simp_all add: stub_simps)
  from gen [of body p svc s projectStatus gem]
  have "projectPath body = Some p \<and> p \<noteq> [] \<and>
    getStatusForProject svc p (nullish_null (branchName body)) s = Inr projectStatus \<longrightarrow>
      field ''isRunning'' (sent (createStatusHandler svc gem body s))
        = Some (JBool (runningCount projectStatus > 0))
      \<and> field ''isAutoLoopRunning'' (sent (createStatusHandler svc gem body s))
        = Some (JBool (isAutoLoopRunning projectStatus))"
    by blast
  with gen [OF d, of stub_message] gen [OF w, of stub_message]
  show ?thesis by simp
qed

text \<open>The theorem at a running loop with two features in flight.\<close>

theorem isRunning_independent_of_loop_witness:
  "field ''isRunning'' (sent (createStatusHandler stub_service stub_message
        (req (Some ''/repo'') (Branch_name ''feature/a'') None) busy)) = Some (JBool True)
   \<and> field ''isAutoLoopRunning'' (sent (createStatusHandler stub_service stub_message
        (req (Some ''/repo'') (Branch_name ''feature/a'') None) busy)) = Some (JBool True)"
proof -
  have 1: "projectPath (req (Some ''/repo'') (Branch_name ''feature/a'') None) = Some ''/repo''
      \<and> ''/repo'' \<noteq> []
      \<and> getStatusForProject stub_service ''/repo''
          (nullish_null (branchName (req (Some ''/repo'') (Branch_name ''feature/a'') None))) busy
          = Inr \<lparr>isAutoLoopRunning = True, runningFeatures = [''f1'', ''f2''],
              runningCount = 2, statusMaxConcurrency = 3\<rparr>"
    by (simp add: stub_simps)
  from isRunning_independent_of_loop
    [of "req (Some ''/repo'') (Branch_name ''feature/a'') None" "''/repo''" stub_service busy
      "\<lparr>isAutoLoopRunning = True, runningFeatures = [''f1'', ''f2''],
              runningCount = 2, statusMaxConcurrency = 3\<rparr>" stub_message] 1
  show ?thesis by simp
qed

text \<open>
  C10. A /status request whose projectPath is the empty string has the outcome of the request
  without projectPath: the global status. It is not answered 400, as /start and /stop
  answer it, and getStatusForProject is not invoked.
\<close>

theorem status_empty_projectPath_is_global:
  "createStatusHandler svc gem (body\<lparr>projectPath := Some []\<rparr>) s
     = createStatusHandler svc gem (body\<lparr>projectPath := None\<rparr>) s
   \<and> createStatusHandler svc gem (body\<lparr>projectPath := Some []\<rparr>) s = globalStatus svc gem s
   \<and> statusCode (sent (createStatusHandler svc gem (body\<lparr>projectPath := Some []\<rparr>) s)) \<noteq> 400
   \<and> Call_getStatusForProject p b
        \<notin> set (invoked (createStatusHandler svc gem (body\<lparr>projectPath := Some []\<rparr>) s))
   \<and> sent (createStartHandler svc gem (body\<lparr>projectPath := Some []\<rparr>) s) = projectPath_required
   \<and> sent (createStopHandler svc gem (body\<lparr>projectPath := Some []\<rparr>) s) = projectPath_required"
  by (simp add: status_global start_missing stop_missing globalStatus_def caught_def
      res_status_json_def res_json_def split: sum.splits)

end
